theory Spec2Isabelle
  imports Main "HOL-Library.Word"
begin

section \<open>Instruction stream\<close>

text \<open>
  Modelled from the spec: the opcode vocabulary \<open>PRPOpCode\<close> (its header is not among the
  sources).  The loader only ever compares an opcode with \<open>BeginObject\<close>,
  \<open>BeginNamedObject\<close>, \<open>EndObject\<close>, \<open>Container\<close>, \<open>NamedContainer\<close> and \<open>String\<close>; every
  scalar opcode is the single case \<open>Trivial\<close>.
\<close>

datatype PRPOpCode =
    BeginObject
  | BeginNamedObject
  | EndObject
  | Container
  | NamedContainer
  | String
  | Trivial

text \<open>
  An instruction is read through \<open>getOpCode()\<close>, \<open>getOperand().trivial.i32\<close> (a signed
  32-bit count) and \<open>getOperand().str\<close>.  The operand is kept as a product of both readings,
  since the loader reads \<open>trivial.i32\<close> of whatever instruction passes the Stage 2 gate.
\<close>

record PRPInstruction =
  getOpCode :: PRPOpCode
  trivial_i32 :: "32 word"
  str :: string

text \<open>
  Modelled from the spec: \<open>Span\<close> is a bounds-checked, sliceable window over a sequence and
  is passed and assigned by value (\<open>begin = ip, end = ip\<close> are independent copies in the
  loader).  A window is the list of elements it still covers; \<open>++ip\<close> drops the first
  element; \<open>slice offset size\<close> keeps \<open>size\<close> elements from \<open>offset\<close>; the window converts to
  \<open>false\<close> when it covers nothing; reading index 0 of an empty window is the error
  \<open>StreamExhausted\<close>.
\<close>

definition slice :: "'a list \<Rightarrow> nat \<Rightarrow> nat \<Rightarrow> 'a list" where
  "slice xs offset sz = take sz (drop offset xs)"

section \<open>Values, type descriptors, scene objects\<close>

text \<open>
  Modelled from the spec: a decoded value holds a payload and the list of raw instructions
  retained with it (\<open>getInstructions()\<close>).
\<close>

datatype Payload = Scalar int | Array "Payload list" | Fields "(string \<times> Payload) list"

record Value =
  payload :: Payload
  getInstructions :: "PRPInstruction list"

text \<open>
  Modelled from the spec: the kinds of a type descriptor.  The loader only tests for
  \<open>COMPLEX\<close>.
\<close>

datatype TypeKind = PRIMITIVE | ENUM | ARRAY | COMPLEX

text \<open>
  A type descriptor as the loader uses it: \<open>getName\<close>, \<open>getKind\<close>, the two decoding passes
  \<open>verify\<close> and \<open>map\<close> (each returns its result and the remaining window), and
  \<open>areUnexposedInstructionsAllowed\<close> of a complex descriptor.  The bodies of \<open>verify\<close> and
  \<open>map\<close> are not among the sources, so they are fields of the descriptor.
\<close>

record Type =
  getName :: string
  getKind :: TypeKind
  verify :: "PRPInstruction list \<Rightarrow> bool \<times> PRPInstruction list"
  mapInstructions :: "PRPInstruction list \<Rightarrow> Value option \<times> PRPInstruction list"
  areUnexposedInstructionsAllowed :: bool

text \<open>
  A scene object is reached through a shared pointer, modelled as an address into a heap.
  The loader reads \<open>getTypeId()\<close>, assigns \<open>getControllers()\<close> and \<open>getProperties()\<close> and
  calls \<open>setParent\<close>.  Modelled from the spec: the ordered child list, which the loader
  never touches.
\<close>

record SceneObject =
  getTypeId :: string
  getParent :: "nat option"
  getChildren :: "nat list"
  getControllers :: "string \<rightharpoonup> Value"
  getProperties :: Value

type_synonym heap = "nat \<Rightarrow> SceneObject"

text \<open>
  The exceptions of the loader, each carrying \<open>objectIdx\<close>: \<open>SceneObjectVisitorException\<close>
  (a structural violation, with its message) and \<open>SceneObjectTypeNotFoundException\<close> (with
  the missing type id or controller name).  \<open>FmtFormatError\<close> is \<open>fmt::format_error\<close>,
  raised by the formatting library while a message is being built.
\<close>

datatype error =
    SceneObjectVisitorException "32 word" string
  | SceneObjectTypeNotFoundException "32 word" string
  | StreamExhausted
  | FmtFormatError

text \<open>
  \<open>fmt::format\<close> belongs to the formatting library, which the loader only calls; it is
  modelled by the library's contract for the replacement field \<open>{}\<close>, the only field the
  loader's format strings contain: each field is replaced by the next argument, and a field
  with no argument left raises \<open>fmt::format_error\<close>.  The call is evaluated before the
  exception that is to carry the message is constructed.
\<close>

fun fmt_format :: "string \<Rightarrow> string list \<Rightarrow> error + string" where
  "fmt_format [] args = Inr []"
| "fmt_format [c] args = Inr [c]"
| "fmt_format (c # d # rest) args =
     (if c = CHR ''{'' \<and> d = CHR ''}''
      then (case args of
              [] \<Rightarrow> Inl FmtFormatError
            | a # args' \<Rightarrow>
                (case fmt_format rest args' of
                   Inl e \<Rightarrow> Inl e
                 | Inr formatted \<Rightarrow> Inr (a @ formatted)))
      else (case fmt_format (d # rest) args of
              Inl e \<Rightarrow> Inl e
            | Inr formatted \<Rightarrow> Inr (c # formatted)))"

text \<open>\<open>InternalContext\<close> holds the running object index; the heap of scene objects is
  threaded with it, since both outlive a thrown exception.\<close>

record InternalContext =
  objectIdx :: "32 word"
  objects_heap :: heap

section \<open>Stage 1: properties\<close>

definition visitProperties ::
  "(string \<Rightarrow> Type option) \<Rightarrow> 32 word \<Rightarrow> string \<Rightarrow> PRPInstruction list
    \<Rightarrow> error + (Value \<times> PRPInstruction list)" where
  "visitProperties findTypeByHash idx typeId instructions =
     (case instructions of
        [] \<Rightarrow> Inl StreamExhausted
      | i0 # ip1 \<Rightarrow>
          if getOpCode i0 \<noteq> BeginObject \<and> getOpCode i0 \<noteq> BeginNamedObject
          then Inl (SceneObjectVisitorException idx
                 ''Invalid object definition (expected BeginObject/BeginNamedObject)'')
          else
            (case findTypeByHash typeId of
               None \<Rightarrow> Inl (SceneObjectTypeNotFoundException idx typeId)
             | Some objectType \<Rightarrow>
                 if \<not> fst (verify objectType ip1)
                 then Inl (SceneObjectVisitorException idx
                        ''Invalid instructions set (verification failed)'')
                 else
                   (case mapInstructions objectType ip1 of
                      (None, newIP) \<Rightarrow>
                        Inl (SceneObjectVisitorException idx
                          ''Invalid instructions set (verification failed) [2]'')
                    | (Some v, newIP) \<Rightarrow>
                        (case newIP of
                           [] \<Rightarrow> Inl StreamExhausted
                         | e # ip2 \<Rightarrow>
                             if getOpCode e \<noteq> EndObject
                             then Inl (SceneObjectVisitorException idx
                                    ''Object decl must ends with EndObject'')
                             else Inr (v, ip2)))))"

section \<open>Stage 2: controllers\<close>

text \<open>
  The \<open>while\<close> loop that looks for the nearest \<open>EndObject\<close>: it returns the window \<open>end\<close>
  and the number \<open>endOffset\<close> of instructions stepped over.
\<close>

fun findEndObject :: "PRPInstruction list \<Rightarrow> nat \<Rightarrow> PRPInstruction list \<times> nat" where
  "findEndObject [] endOffset = ([], endOffset)"
| "findEndObject (x # xs) endOffset =
     (if getOpCode x \<noteq> EndObject then findEndObject xs (Suc endOffset)
      else (x # xs, endOffset))"

text \<open>
  The recovery branch taken after a controller is mapped: when the cursor is not on
  \<open>EndObject\<close> and the descriptor allows unexposed instructions, the instructions
  \<open>begin.slice(0, ip.size - endOffset)\<close> are appended to the stored controller value and the
  cursor moves to \<open>ip.slice(endOffset, ip.size - endOffset)\<close>.
\<close>

text \<open>
  The message of the recovery branch, as \<open>fmt::format\<close> yields it with the controller's name
  as its argument (\<open>unexposedMessage_formatted\<close> below).
\<close>

definition unexposedMessage :: "string \<Rightarrow> string" where
  "unexposedMessage controllerName =
     ''Invalid controller definition: We have controller '' @ [CHR 0x27] @ controllerName
       @ [CHR 0x27] @ '' with unexposed instructions and without EndObject instruction!''"

definition extractUnexposed ::
  "32 word \<Rightarrow> string \<Rightarrow> Type \<Rightarrow> (string \<rightharpoonup> Value) \<Rightarrow> PRPInstruction list
    \<Rightarrow> error + ((string \<rightharpoonup> Value) \<times> PRPInstruction list)" where
  "extractUnexposed idx controllerName controllerType controllers ip =
     (case ip of
        [] \<Rightarrow> Inl StreamExhausted
      | i0 # rest \<Rightarrow>
          if getOpCode i0 \<noteq> EndObject \<and> areUnexposedInstructionsAllowed controllerType
          then
            (case findEndObject ip 0 of
               (end, endOffset) \<Rightarrow>
                 if end = []
                 then Inl (SceneObjectVisitorException idx (unexposedMessage controllerName))
                 else
                   (let unexposedInstructions = slice ip 0 (length ip - endOffset);
                        orgValue = (case controllers controllerName of
                                      Some v \<Rightarrow> v
                                    | None \<Rightarrow> \<lparr>payload = Fields [], getInstructions = []\<rparr>)
                    in Inr (controllers(controllerName \<mapsto>
                              orgValue\<lparr>getInstructions :=
                                 getInstructions orgValue @ unexposedInstructions\<rparr>),
                            slice ip endOffset (length ip - endOffset))))
          else Inr (controllers, ip))"

text \<open>
  The \<open>for\<close> loop over the controllers, by the number of iterations still to run.  Each
  iteration reads the name (\<open>String\<close>), the opening opcode, resolves the descriptor by short
  name, requires it to be complex, maps, stores the value under the name, runs the recovery
  branch, and requires and consumes \<open>EndObject\<close>.  For a descriptor that is not complex the
  message is formatted first, with no argument passed for its field, and the
  \<open>SceneObjectVisitorException\<close> is built from the result.
\<close>

fun controllersLoop ::
  "(string \<Rightarrow> Type option) \<Rightarrow> 32 word \<Rightarrow> nat \<Rightarrow> (string \<rightharpoonup> Value) \<Rightarrow> PRPInstruction list
    \<Rightarrow> error + ((string \<rightharpoonup> Value) \<times> PRPInstruction list)" where
  "controllersLoop findTypeByShortName idx 0 controllers ip = Inr (controllers, ip)"
| "controllersLoop findTypeByShortName idx (Suc n) controllers ip =
     (case ip of
        [] \<Rightarrow> Inl StreamExhausted
      | s # ip1 \<Rightarrow>
          if getOpCode s \<noteq> String
          then Inl (SceneObjectVisitorException idx
                 ''Invalid controller definition (Expected String)'')
          else
            (case ip1 of
               [] \<Rightarrow> Inl StreamExhausted
             | b # ip2 \<Rightarrow>
                 if getOpCode b \<noteq> BeginObject \<and> getOpCode b \<noteq> BeginNamedObject
                 then Inl (SceneObjectVisitorException idx
                        ''Invalid controller definition (Expected BeginObject/BeginNamedObject)'')
                 else
                   (case findTypeByShortName (str s) of
                      None \<Rightarrow> Inl (SceneObjectTypeNotFoundException idx (str s))
                    | Some controllerType \<Rightarrow>
                        if getKind controllerType \<noteq> COMPLEX
                        then (case fmt_format
                                     ''Type '{}' not allowed to be controller because it's not COMPLEX''
                                     [] of
                                Inl e \<Rightarrow> Inl e
                              | Inr message \<Rightarrow> Inl (SceneObjectVisitorException idx message))
                        else
                          (case mapInstructions controllerType ip2 of
                             (None, nextIP) \<Rightarrow>
                               Inl (SceneObjectVisitorException idx ''Failed to map controller'')
                           | (Some v, nextIP) \<Rightarrow>
                               (case extractUnexposed idx (str s) controllerType
                                       (controllers(str s \<mapsto> v)) nextIP of
                                  Inl e \<Rightarrow> Inl e
                                | Inr (controllers', ip3) \<Rightarrow>
                                    (case ip3 of
                                       [] \<Rightarrow> Inl StreamExhausted
                                     | e # ip4 \<Rightarrow>
                                         if getOpCode e \<noteq> EndObject
                                         then Inl (SceneObjectVisitorException idx
                                                ''Invalid controller definition (Expected EndObject)'')
                                         else controllersLoop findTypeByShortName idx n
                                                controllers' ip4))))))"

text \<open>
  Stage 2 as a whole: the gate on the opcode at the cursor, exactly as written
  (\<open>!= Container && == NamedContainer\<close>), the count read from \<open>trivial.i32\<close>, and the loop,
  which runs \<open>controllersCount\<close> times when that signed count is positive.
\<close>

definition visitControllers ::
  "(string \<Rightarrow> Type option) \<Rightarrow> 32 word \<Rightarrow> PRPInstruction list
    \<Rightarrow> error + ((string \<rightharpoonup> Value) \<times> PRPInstruction list)" where
  "visitControllers findTypeByShortName idx ip =
     (case ip of
        [] \<Rightarrow> Inl StreamExhausted
      | c # ip1 \<Rightarrow>
          if getOpCode c \<noteq> Container \<and> getOpCode c = NamedContainer
          then Inl (SceneObjectVisitorException idx
                 ''Invalid object definition (Expected Container/NamedContainer)'')
          else controllersLoop findTypeByShortName idx (nat (sint (trivial_i32 c)))
                 Map.empty ip1)"

section \<open>Stage 3: children, and the recursion\<close>

text \<open>
  \<open>visitImpl\<close> takes the parent and the current object (pointers), the window of pending
  placeholder pointers and the instruction window, both by value.  It returns the exception
  thrown, if any, with the context as the call left it.  \<open>childrenLoop\<close> is the \<open>for\<close> loop
  of Stage 3 by the number of iterations still to run: every iteration passes the frame's own
  \<open>objects[0]\<close>, \<open>objects.slice(1, objects.size - 1)\<close> and \<open>ip\<close> to the recursive call, then
  tests \<open>ip[0]\<close> of this frame.
\<close>

fun visitImpl ::
  "(string \<Rightarrow> Type option) \<Rightarrow> (string \<Rightarrow> Type option) \<Rightarrow> nat option \<Rightarrow> nat \<Rightarrow> nat list
    \<Rightarrow> PRPInstruction list \<Rightarrow> InternalContext \<Rightarrow> error option \<times> InternalContext"
and childrenLoop ::
  "(string \<Rightarrow> Type option) \<Rightarrow> (string \<Rightarrow> Type option) \<Rightarrow> nat option \<Rightarrow> nat \<Rightarrow> nat list
    \<Rightarrow> PRPInstruction list \<Rightarrow> nat \<Rightarrow> InternalContext \<Rightarrow> error option \<times> InternalContext"
where
  "visitImpl findTypeByHash findTypeByShortName parent currentObject objects instructions ctx =
     (case visitProperties findTypeByHash (objectIdx ctx)
             (getTypeId (objects_heap ctx currentObject)) instructions of
        Inl e \<Rightarrow> (Some e, ctx)
      | Inr (properties, ip) \<Rightarrow>
          (case visitControllers findTypeByShortName (objectIdx ctx) ip of
             Inl e \<Rightarrow> (Some e, ctx)
           | Inr (controllers, ip') \<Rightarrow>
               (let ctx' = ctx\<lparr>objects_heap := (objects_heap ctx)(currentObject :=
                             (objects_heap ctx currentObject)
                               \<lparr>getControllers := controllers, getProperties := properties\<rparr>)\<rparr>
                in case ip' of
                     [] \<Rightarrow> (Some StreamExhausted, ctx')
                   | c # ip'' \<Rightarrow>
                       if getOpCode c \<noteq> Container \<and> getOpCode c \<noteq> NamedContainer
                       then (Some (SceneObjectVisitorException (objectIdx ctx')
                               ''Invalid controller definition (Expected Container with children geoms)''),
                             ctx')
                       else childrenLoop findTypeByHash findTypeByShortName parent currentObject
                              objects ip'' (nat (sint (trivial_i32 c))) ctx')))"
| "childrenLoop findTypeByHash findTypeByShortName parent currentObject objects ip 0 ctx =
     (None, ctx)"
| "childrenLoop findTypeByHash findTypeByShortName parent currentObject objects ip (Suc n) ctx =
     (let ctx1 = (case parent of
                    None \<Rightarrow> ctx
                  | Some p \<Rightarrow> ctx\<lparr>objects_heap := (objects_heap ctx)(currentObject :=
                                (objects_heap ctx currentObject)\<lparr>getParent := Some p\<rparr>)\<rparr>);
          ctx2 = ctx1\<lparr>objectIdx := objectIdx ctx1 + 1\<rparr>
      in case objects of
           [] \<Rightarrow> (Some StreamExhausted, ctx2)
         | child # pending \<Rightarrow>
             (case visitImpl findTypeByHash findTypeByShortName (Some currentObject) child
                     pending ip ctx2 of
                (Some e, ctx3) \<Rightarrow> (Some e, ctx3)
              | (None, ctx3) \<Rightarrow>
                  (case ip of
                     [] \<Rightarrow> (Some StreamExhausted, ctx3)
                   | e # ip' \<Rightarrow>
                       if getOpCode e \<noteq> EndObject
                       then (Some (SceneObjectVisitorException (objectIdx ctx3)
                               ''Invalid children definition (Expected EndObject)''), ctx3)
                       else childrenLoop findTypeByHash findTypeByShortName parent currentObject
                              objects ip' n ctx3)))"

text \<open>
  \<open>SceneObjectPropertiesLoader::load\<close>: nothing happens when either window is empty;
  otherwise the first placeholder is visited as the root, with no parent, a fresh context
  (\<open>objectIdx = 0\<close>) and the remaining placeholders pending.
\<close>

definition load ::
  "(string \<Rightarrow> Type option) \<Rightarrow> (string \<Rightarrow> Type option) \<Rightarrow> nat list \<Rightarrow> PRPInstruction list
    \<Rightarrow> heap \<Rightarrow> error option \<times> heap" where
  "load findTypeByHash findTypeByShortName objects instructions h =
     (if objects = [] \<or> instructions = [] then (None, h)
      else
        (case visitImpl findTypeByHash findTypeByShortName None (hd objects)
                (slice objects 1 (length objects - 1)) instructions
                \<lparr>objectIdx = 0, objects_heap = h\<rparr> of
           (err, ctx) \<Rightarrow> (err, objects_heap ctx)))"

section \<open>Type registry\<close>

text \<open>
  \<open>TypeRegistry\<close> owns the descriptors (\<open>m_types\<close>) and indexes them by hash and by name.
  A \<open>Type*\<close> is modelled by the descriptor it points to; a null pointer or an empty
  \<open>unique_ptr\<close> is \<open>None\<close>.
\<close>

record TypeRegistry =
  m_types :: "Type list"
  m_typesByHash :: "string \<rightharpoonup> Type"
  m_typesByName :: "string \<rightharpoonup> Type"

text \<open>
  \<open>registerType\<close>: \<open>try_emplace\<close> inserts under the descriptor's name only when the name is
  absent; on success the descriptor is moved to the end of \<open>m_types\<close> and its pointer
  returned.
\<close>

definition registerType :: "Type option \<Rightarrow> TypeRegistry \<Rightarrow> Type option \<times> TypeRegistry" where
  "registerType constructedType r =
     (case constructedType of
        None \<Rightarrow> (None, r)
      | Some ptr \<Rightarrow>
          (case m_typesByName r (getName ptr) of
             Some existing \<Rightarrow> (None, r)
           | None \<Rightarrow>
               (Some ptr,
                r\<lparr>m_typesByName := (m_typesByName r)(getName ptr \<mapsto> ptr),
                  m_types := m_types r @ [ptr]\<rparr>)))"

section \<open>Geometry hierarchy entity\<close>

record GMSGeomEntity =
  m_parentGeomIndex :: "32 word"
  m_depthLevel :: "32 word"
  m_name :: string
  m_unk4 :: "32 word"
  m_unk8 :: "32 word"
  m_primitiveId :: "32 word"
  m_unk10 :: "32 word"
  m_typeId :: "32 word"
  m_unk18 :: "32 word"
  m_coliBits :: "32 word"
  m_unk20 :: "32 word"
  m_unk24 :: "32 word"
  m_unk28 :: "32 word"
  m_unk2C :: "32 word"
  m_instanceId :: "32 word"
  m_unk34 :: "32 word"
  m_unk38 :: "32 word"
  m_unk3C :: "32 word"

definition kInvalidParent :: "32 word" where
  "kInvalidParent = 0xFFFFFFEE"

text \<open>
  A freshly constructed entity, by the default member initialisers of the class.  The union
  \<open>m_unk34\<close> has no initialiser, so its content is an argument.
\<close>

definition GMSGeomEntity_init :: "32 word \<Rightarrow> GMSGeomEntity" where
  "GMSGeomEntity_init unk34 =
     \<lparr>m_parentGeomIndex = kInvalidParent, m_depthLevel = 0, m_name = [], m_unk4 = 0,
      m_unk8 = 0, m_primitiveId = 0, m_unk10 = 0, m_typeId = 0, m_unk18 = 0, m_coliBits = 0,
      m_unk20 = 0, m_unk24 = 0, m_unk28 = 0, m_unk2C = 0, m_instanceId = 0, m_unk34 = unk34,
      m_unk38 = 0, m_unk3C = 0\<rparr>"

text \<open>
  Modelled from the spec: the body of \<open>isInheritedOfGeom\<close> (only its declaration is among
  the sources); "is inherited" is "parent index differs from the sentinel".
\<close>

definition isInheritedOfGeom :: "GMSGeomEntity \<Rightarrow> bool" where
  "isInheritedOfGeom entity = (m_parentGeomIndex entity \<noteq> kInvalidParent)"

section \<open>Concrete inputs\<close>

text \<open>
  Inputs on which the definitions are evaluated: an instruction of each shape, a complex
  descriptor without properties that tolerates trailing instructions, a primitive
  descriptor, and an empty placeholder object.
\<close>

definition instr :: "PRPOpCode \<Rightarrow> PRPInstruction" where
  "instr opc = \<lparr>getOpCode = opc, trivial_i32 = 0, str = []\<rparr>"

definition container :: "32 word \<Rightarrow> PRPInstruction" where
  "container n = \<lparr>getOpCode = Container, trivial_i32 = n, str = []\<rparr>"

definition stringInstr :: "string \<Rightarrow> PRPInstruction" where
  "stringInstr s = \<lparr>getOpCode = String, trivial_i32 = 0, str = s\<rparr>"

definition trivialInstr :: "32 word \<Rightarrow> PRPInstruction" where
  "trivialInstr n = \<lparr>getOpCode = Trivial, trivial_i32 = n, str = []\<rparr>"

definition emptyValue :: Value where
  "emptyValue = \<lparr>payload = Fields [], getInstructions = []\<rparr>"

definition emptyComplexType :: "string \<Rightarrow> Type" where
  "emptyComplexType name =
     \<lparr>getName = name, getKind = COMPLEX, verify = (\<lambda>ip. (True, ip)),
      mapInstructions = (\<lambda>ip. (Some emptyValue, ip)),
      areUnexposedInstructionsAllowed = True\<rparr>"

definition primitiveType :: Type where
  "primitiveType =
     \<lparr>getName = ''Int32'', getKind = PRIMITIVE, verify = (\<lambda>ip. (True, tl ip)),
      mapInstructions = (\<lambda>ip. (Some \<lparr>payload = Scalar 0, getInstructions = []\<rparr>, tl ip)),
      areUnexposedInstructionsAllowed = False\<rparr>"

definition placeholder :: "string \<Rightarrow> SceneObject" where
  "placeholder typeId =
     \<lparr>getTypeId = typeId, getParent = None, getChildren = [], getControllers = Map.empty,
      getProperties = \<lparr>payload = Scalar 0, getInstructions = []\<rparr>\<rparr>"

definition heapOf :: "string \<Rightarrow> string \<Rightarrow> heap" where
  "heapOf rootType otherType = (\<lambda>a. placeholder (if a = 0 then rootType else otherType))"

definition heapOfTypes :: "string list \<Rightarrow> heap" where
  "heapOfTypes typeIds = (\<lambda>a. placeholder (if a < length typeIds then typeIds ! a else []))"

definition catalog :: "string \<Rightarrow> Type option" where
  "catalog key =
     (if key = ''ZGEOM'' then Some (emptyComplexType ''ZGEOM'')
      else if key = ''ZEVENT'' then Some (emptyComplexType ''ZEVENT'')
      else if key = ''Int32'' then Some primitiveType
      else None)"

definition registryWithGeom :: TypeRegistry where
  "registryWithGeom =
     \<lparr>m_types = [emptyComplexType ''ZGEOM''], m_typesByHash = Map.empty,
      m_typesByName = [''ZGEOM'' \<mapsto> emptyComplexType ''ZGEOM'']\<rparr>"

section \<open>Facts about the stages\<close>

lemma not_allowed_message_fails:
  "fmt_format ''Type '{}' not allowed to be controller because it's not COMPLEX'' [] =
     Inl FmtFormatError"
  by simp

lemma unexposedMessage_formatted:
  "fmt_format
     ''Invalid controller definition: We have controller '{}' with unexposed instructions and without EndObject instruction!''
     [controllerName] = Inr (unexposedMessage controllerName)"
  by (simp add: unexposedMessage_def)

lemma controllersLoop_non_complex:
  assumes "getOpCode s = String"
    and "getOpCode b = BeginObject \<or> getOpCode b = BeginNamedObject"
    and "fn (str s) = Some t" and "getKind t \<noteq> COMPLEX"
  shows "controllersLoop fn idx (Suc n) controllers (s # b # ip) = Inl FmtFormatError"
  using assms by auto

lemma visitControllers_gate:
  "visitControllers fn idx (c # ip) =
     (if getOpCode c = NamedContainer
      then Inl (SceneObjectVisitorException idx
             ''Invalid object definition (Expected Container/NamedContainer)'')
      else controllersLoop fn idx (nat (sint (trivial_i32 c))) Map.empty ip)"
  by (simp add: visitControllers_def)

lemma visitProperties_Inr_opens:
  "visitProperties fh idx tid ip = Inr r \<Longrightarrow>
     \<exists>b rest. ip = b # rest \<and> (getOpCode b = BeginObject \<or> getOpCode b = BeginNamedObject)"
  by (auto simp: visitProperties_def split: list.splits if_splits)

lemma visitImpl_success_opens:
  assumes "visitImpl fh fn parent cur objs ip ctx = (None, ctx')"
  shows "\<exists>b rest. ip = b # rest \<and> (getOpCode b = BeginObject \<or> getOpCode b = BeginNamedObject)"
proof (cases "visitProperties fh (objectIdx ctx) (getTypeId (objects_heap ctx cur)) ip")
  case (Inl e)
  with assms show ?thesis by simp
next
  case (Inr r)
  then show ?thesis by (rule visitProperties_Inr_opens)
qed

lemma visitProperties_missing_type:
  "getOpCode b = BeginObject \<or> getOpCode b = BeginNamedObject \<Longrightarrow> fh typeId = None \<Longrightarrow>
     visitProperties fh idx typeId (b # ip) = Inl (SceneObjectTypeNotFoundException idx typeId)"
  by (auto simp: visitProperties_def)

text \<open>
  A frame whose Stage 3 loop runs at all ends in an exception: the recursive call works on
  its own copy of the window, so on its return \<open>ip[0]\<close> of this frame is still the opening
  opcode that the child accepted, never \<open>EndObject\<close>.
\<close>

lemma childrenLoop_throws:
  "fst (childrenLoop fh fn parent cur objs ip (Suc n) ctx) \<noteq> None"
proof (cases objs)
  case Nil
  then show ?thesis by (simp add: Let_def)
next
  case (Cons child pending)
  define ctx1 where "ctx1 = (case parent of None \<Rightarrow> ctx
     | Some p \<Rightarrow> ctx\<lparr>objects_heap := (objects_heap ctx)(cur :=
                                (objects_heap ctx cur)\<lparr>getParent := Some p\<rparr>)\<rparr>)"
  define ctx2 where "ctx2 = ctx1\<lparr>objectIdx := objectIdx ctx1 + 1\<rparr>"
  obtain r ctx3 where res: "visitImpl fh fn (Some cur) child pending ip ctx2 = (r, ctx3)"
    by (cases "visitImpl fh fn (Some cur) child pending ip ctx2")
  have unfold: "childrenLoop fh fn parent cur objs ip (Suc n) ctx =
     (case (r, ctx3) of (Some e, ctx3) \<Rightarrow> (Some e, ctx3)
              | (None, ctx3) \<Rightarrow>
                  (case ip of
                     [] \<Rightarrow> (Some StreamExhausted, ctx3)
                   | e # ip' \<Rightarrow>
                       if getOpCode e \<noteq> EndObject
                       then (Some (SceneObjectVisitorException (objectIdx ctx3)
                               ''Invalid children definition (Expected EndObject)''), ctx3)
                       else childrenLoop fh fn parent cur
                              objs ip' n ctx3))"
    unfolding childrenLoop.simps Let_def Cons list.case ctx1_def [symmetric] ctx2_def [symmetric] res ..
  show ?thesis
  proof (cases r)
    case (Some e)
    then show ?thesis unfolding unfold by simp
  next
    case None
    with res obtain b rest where "ip = b # rest" "getOpCode b = BeginObject \<or> getOpCode b = BeginNamedObject"
      using visitImpl_success_opens by blast
    then show ?thesis unfolding unfold None by auto
  qed
qed

text \<open>
  What the recovery branch stores.  With \<open>k\<close> instructions in front of the nearest
  \<open>EndObject\<close>, the cursor moves onto that \<open>EndObject\<close>, and the instructions appended
  are the first \<open>length ip - k\<close> of the window (the size passed to \<open>begin.slice\<close>).
\<close>

lemma slice_pending: "slice (x # xs) 1 (length (x # xs) - 1) = xs"
  by (simp add: slice_def)

lemma slice_rest: "slice xs k (length xs - k) = drop k xs"
  by (simp add: slice_def)

lemma slice_front: "slice xs 0 n = take n xs"
  by (simp add: slice_def)

lemma findEndObject_eq:
  "findEndObject xs k =
     (dropWhile (\<lambda>x. getOpCode x \<noteq> EndObject) xs,
      k + length (takeWhile (\<lambda>x. getOpCode x \<noteq> EndObject) xs))"
  by (induction xs arbitrary: k) auto

lemma extractUnexposed_captured:
  assumes "getOpCode i0 \<noteq> EndObject"
    and "areUnexposedInstructionsAllowed t"
    and "controllers name = Some v"
    and "findEndObject (i0 # rest) 0 = (e # after, k)"
  shows "extractUnexposed idx name t controllers (i0 # rest) =
           Inr (controllers(name \<mapsto>
                  v\<lparr>getInstructions :=
                      getInstructions v @ take (length (i0 # rest) - k) (i0 # rest)\<rparr>),
                e # after)"
proof -
  let ?P = "\<lambda>x. getOpCode x \<noteq> EndObject"
  from assms(4) have k: "k = length (takeWhile ?P (i0 # rest))"
    and d: "e # after = dropWhile ?P (i0 # rest)"
    by (simp_all add: findEndObject_eq del: findEndObject.simps takeWhile.simps dropWhile.simps)
  have "drop k (i0 # rest) = e # after"
    unfolding k d by (rule dropWhile_eq_drop [symmetric])
  then have "slice (i0 # rest) k (length (i0 # rest) - k) = e # after"
    by (simp only: slice_rest)
  then show ?thesis
    using assms
    by (simp add: extractUnexposed_def slice_front Let_def
          del: findEndObject.simps take_Suc_Cons)
qed

text \<open>
  Where a \<open>SceneObjectTypeNotFoundException\<close> can come from.  Stage 1 throws it with the
  frame's object index and type id, Stage 2 with the frame's object index and a controller
  name; the Stage 3 loop only passes on what its first child threw.  A frame reached from
  \<open>load\<close> visits the placeholder at position \<open>objectIdx\<close>, so the index carried is the
  position of the object in the placeholder list.
\<close>

lemma visitProperties_not_found:
  "visitProperties fh idx tid ip = Inl (SceneObjectTypeNotFoundException idx' x) \<Longrightarrow>
     idx' = idx \<and> x = tid \<and> fh x = None"
  by (auto simp: visitProperties_def split: list.splits if_splits option.splits prod.splits)

lemma extractUnexposed_not_found:
  "extractUnexposed idx name t controllers ip \<noteq> Inl (SceneObjectTypeNotFoundException idx' x)"
  by (auto simp: extractUnexposed_def Let_def split: list.splits if_splits prod.splits)

lemma controllersLoop_not_found:
  "controllersLoop fn idx n controllers ip = Inl (SceneObjectTypeNotFoundException idx' x) \<Longrightarrow>
     idx' = idx \<and> fn x = None"
proof (induction n arbitrary: controllers ip)
  case 0
  then show ?case by simp
next
  case (Suc n)
  from Suc.prems show ?case
    by (auto simp: extractUnexposed_not_found split: list.splits if_splits option.splits prod.splits sum.splits
        dest: Suc.IH)
qed

lemma visitControllers_not_found:
  "visitControllers fn idx ip = Inl (SceneObjectTypeNotFoundException idx' x) \<Longrightarrow>
     idx' = idx \<and> fn x = None"
  by (auto simp: visitControllers_def split: list.splits if_splits dest: controllersLoop_not_found)


lemma visitImpl_not_found_cases:
  assumes "visitImpl fh fn parent cur objs ip ctx =
             (Some (SceneObjectTypeNotFoundException idx x), ctx')"
  shows "(idx = objectIdx ctx
            \<and> ((x = getTypeId (objects_heap ctx cur) \<and> fh x = None) \<or> fn x = None))
         \<or> (\<exists>n ip'' ctx''. objectIdx ctx'' = objectIdx ctx
               \<and> (\<forall>a. getTypeId (objects_heap ctx'' a) = getTypeId (objects_heap ctx a))
               \<and> childrenLoop fh fn parent cur objs ip'' n ctx'' =
                   (Some (SceneObjectTypeNotFoundException idx x), ctx'))"
proof (cases "visitProperties fh (objectIdx ctx) (getTypeId (objects_heap ctx cur)) ip")
  case (Inl e)
  with assms have "e = SceneObjectTypeNotFoundException idx x" by simp
  with Inl show ?thesis by (auto dest: visitProperties_not_found)
next
  case (Inr r)
  obtain properties ip1 where r: "r = (properties, ip1)" by (cases r)
  show ?thesis
  proof (cases "visitControllers fn (objectIdx ctx) ip1")
    case (Inl e)
    with assms Inr r have "e = SceneObjectTypeNotFoundException idx x" by simp
    with Inl show ?thesis by (auto dest: visitControllers_not_found)
  next
    case (Inr r2)
    obtain controllers ip2 where r2: "r2 = (controllers, ip2)" by (cases r2)
    define ctx1 where "ctx1 = ctx\<lparr>objects_heap := (objects_heap ctx)(cur :=
                             (objects_heap ctx cur)
                               \<lparr>getControllers := controllers, getProperties := properties\<rparr>)\<rparr>"
    have inv: "objectIdx ctx1 = objectIdx ctx"
      "\<forall>a. getTypeId (objects_heap ctx1 a) = getTypeId (objects_heap ctx a)"
      by (simp_all add: ctx1_def)
    from assms \<open>visitProperties _ _ _ _ = Inr r\<close> r Inr r2
    have "\<exists>n ip''. childrenLoop fh fn parent cur objs ip'' n ctx1 =
             (Some (SceneObjectTypeNotFoundException idx x), ctx')"
      by (auto simp: Let_def ctx1_def split: list.splits if_splits intro!: exI)
    with inv show ?thesis by blast
  qed
qed

lemma childrenLoop_not_found_step:
  assumes "childrenLoop fh fn parent cur objs ip n ctx =
             (Some (SceneObjectTypeNotFoundException idx x), ctx')"
  shows "\<exists>child pending ctx2. objs = child # pending
           \<and> objectIdx ctx2 = objectIdx ctx + 1
           \<and> (\<forall>a. getTypeId (objects_heap ctx2 a) = getTypeId (objects_heap ctx a))
           \<and> visitImpl fh fn (Some cur) child pending ip ctx2 =
               (Some (SceneObjectTypeNotFoundException idx x), ctx')"
proof (cases n)
  case 0
  with assms show ?thesis by simp
next
  case (Suc m)
  define ctx1 where "ctx1 = (case parent of None \<Rightarrow> ctx
     | Some p \<Rightarrow> ctx\<lparr>objects_heap := (objects_heap ctx)(cur :=
                                (objects_heap ctx cur)\<lparr>getParent := Some p\<rparr>)\<rparr>)"
  define ctx2 where "ctx2 = ctx1\<lparr>objectIdx := objectIdx ctx1 + 1\<rparr>"
  have inv: "objectIdx ctx2 = objectIdx ctx + 1"
    "\<forall>a. getTypeId (objects_heap ctx2 a) = getTypeId (objects_heap ctx a)"
    by (simp_all add: ctx2_def ctx1_def split: option.splits)
  show ?thesis
  proof (cases objs)
    case Nil
    with assms Suc show ?thesis by (simp add: Let_def)
  next
    case (Cons child pending)
    obtain r ctx3 where res: "visitImpl fh fn (Some cur) child pending ip ctx2 = (r, ctx3)"
      by (cases "visitImpl fh fn (Some cur) child pending ip ctx2")
    have unfold: "childrenLoop fh fn parent cur objs ip n ctx =
       (case (r, ctx3) of (Some e, ctx3) \<Rightarrow> (Some e, ctx3)
                | (None, ctx3) \<Rightarrow>
                    (case ip of
                       [] \<Rightarrow> (Some StreamExhausted, ctx3)
                     | e # ip' \<Rightarrow>
                         if getOpCode e \<noteq> EndObject
                         then (Some (SceneObjectVisitorException (objectIdx ctx3)
                                 ''Invalid children definition (Expected EndObject)''), ctx3)
                         else childrenLoop fh fn parent cur
                                objs ip' m ctx3))"
      unfolding Suc childrenLoop.simps Let_def Cons list.case ctx1_def [symmetric]
        ctx2_def [symmetric] res ..
    show ?thesis
    proof (cases r)
      case (Some e)
      with assms unfold have "e = SceneObjectTypeNotFoundException idx x" "ctx3 = ctx'"
        by simp_all
      with res Some Cons inv show ?thesis by blast
    next
      case None
      with res obtain b rest where "ip = b # rest"
        "getOpCode b = BeginObject \<or> getOpCode b = BeginNamedObject"
        using visitImpl_success_opens by blast
      with assms unfold None show ?thesis by auto
    qed
  qed
qed

lemma visitImpl_not_found_index:
  assumes "visitImpl fh fn parent cur objs ip ctx =
             (Some (SceneObjectTypeNotFoundException idx x), ctx')"
    and "objs = drop (Suc k) all" and "k < length all" and "cur = all ! k"
    and "objectIdx ctx = of_nat k"
    and "\<forall>a. getTypeId (objects_heap ctx a) = getTypeId (h a)"
  shows "\<exists>j<length all. idx = of_nat j
           \<and> ((x = getTypeId (h (all ! j)) \<and> fh x = None) \<or> fn x = None)"
  using assms
proof (induction objs arbitrary: parent cur ip ctx k)
  case Nil
  from visitImpl_not_found_cases [OF Nil.prems(1)] show ?case
  proof
    assume "idx = objectIdx ctx
            \<and> ((x = getTypeId (objects_heap ctx cur) \<and> fh x = None) \<or> fn x = None)"
    with Nil.prems show ?thesis by auto
  next
    assume "\<exists>n ip'' ctx''. objectIdx ctx'' = objectIdx ctx
               \<and> (\<forall>a. getTypeId (objects_heap ctx'' a) = getTypeId (objects_heap ctx a))
               \<and> childrenLoop fh fn parent cur [] ip'' n ctx'' =
                   (Some (SceneObjectTypeNotFoundException idx x), ctx')"
    then show ?thesis by (auto dest: childrenLoop_not_found_step)
  qed
next
  case (Cons child pending)
  from visitImpl_not_found_cases [OF Cons.prems(1)] show ?case
  proof
    assume "idx = objectIdx ctx
            \<and> ((x = getTypeId (objects_heap ctx cur) \<and> fh x = None) \<or> fn x = None)"
    with Cons.prems show ?thesis by auto
  next
    assume "\<exists>n ip'' ctx''. objectIdx ctx'' = objectIdx ctx
               \<and> (\<forall>a. getTypeId (objects_heap ctx'' a) = getTypeId (objects_heap ctx a))
               \<and> childrenLoop fh fn parent cur (child # pending) ip'' n ctx'' =
                   (Some (SceneObjectTypeNotFoundException idx x), ctx')"
    then obtain n ip'' ctx'' where c: "objectIdx ctx'' = objectIdx ctx"
      "\<forall>a. getTypeId (objects_heap ctx'' a) = getTypeId (objects_heap ctx a)"
      "childrenLoop fh fn parent cur (child # pending) ip'' n ctx'' =
                   (Some (SceneObjectTypeNotFoundException idx x), ctx')"
      by blast
    from childrenLoop_not_found_step [OF c(3)] obtain ctx2 where
      s: "objectIdx ctx2 = objectIdx ctx'' + 1"
      "\<forall>a. getTypeId (objects_heap ctx2 a) = getTypeId (objects_heap ctx'' a)"
      "visitImpl fh fn (Some cur) child pending ip'' ctx2 =
               (Some (SceneObjectTypeNotFoundException idx x), ctx')"
      by auto
    from Cons.prems(2) have d: "drop (Suc k) all = child # pending" by simp
    then have lt: "Suc k < length all"
      by (metis drop_all list.distinct(1) not_less)
    from d lt have ch: "child = all ! Suc k" and pe: "pending = drop (Suc (Suc k)) all"
      by (metis Cons_nth_drop_Suc list.inject)+
    have i2: "objectIdx ctx2 = of_nat (Suc k)"
      using s(1) c(1) Cons.prems(5) by simp
    have t2: "\<forall>a. getTypeId (objects_heap ctx2 a) = getTypeId (h a)"
      using s(2) c(2) Cons.prems(6) by simp
    from Cons.IH [OF s(3) pe lt ch i2 t2] show ?thesis .
  qed
qed

lemma load_not_found_index:
  assumes "fst (load fh fn objs ip h) = Some (SceneObjectTypeNotFoundException idx x)"
  shows "\<exists>j<length objs. idx = of_nat j
           \<and> ((x = getTypeId (h (objs ! j)) \<and> fh x = None) \<or> fn x = None)"
proof -
  from assms have ne: "objs \<noteq> []" "ip \<noteq> []"
    by (auto simp: load_def split: if_splits)
  obtain r ctx' where res: "visitImpl fh fn None (hd objs) (slice objs 1 (length objs - 1)) ip
                \<lparr>objectIdx = 0, objects_heap = h\<rparr> = (r, ctx')"
    by (cases "visitImpl fh fn None (hd objs) (slice objs 1 (length objs - 1)) ip
                \<lparr>objectIdx = 0, objects_heap = h\<rparr>")
  with assms ne have r: "r = Some (SceneObjectTypeNotFoundException idx x)"
    by (simp add: load_def)
  have sl: "slice objs 1 (length objs - 1) = drop (Suc 0) objs"
    using slice_rest [of objs 1] by simp
  have hd0: "hd objs = objs ! 0" using ne by (simp add: hd_conv_nth)
  show ?thesis
    using visitImpl_not_found_index [OF res [unfolded r] sl _ hd0, of h] ne
    by simp
qed

text \<open>
  A frame that is reached and whose object has an unregistered type id throws
  \<open>SceneObjectTypeNotFoundException\<close> with the running object index; so does the first
  child of a frame, with the index advanced by one; so does a controller that is reached
  and whose short name is unregistered.
\<close>

lemma visitImpl_missing_type:
  assumes "getOpCode b = BeginObject \<or> getOpCode b = BeginNamedObject"
    and "fh (getTypeId (objects_heap ctx cur)) = None"
  shows "visitImpl fh fn parent cur objs (b # ip) ctx =
           (Some (SceneObjectTypeNotFoundException (objectIdx ctx)
                    (getTypeId (objects_heap ctx cur))), ctx)"
  using assms by (simp add: visitProperties_missing_type)

lemma childrenLoop_child_missing_type:
  assumes a: "(getOpCode b = BeginObject \<or> getOpCode b = BeginNamedObject)
      \<and> fh (getTypeId (objects_heap ctx child)) = None"
  shows "fst (childrenLoop fh fn parent cur (child # pending) (b # ip) (Suc k) ctx) =
        Some (SceneObjectTypeNotFoundException (objectIdx ctx + 1)
                 (getTypeId (objects_heap ctx child)))"
proof -
  define ctx1 where "ctx1 = (case parent of None \<Rightarrow> ctx
     | Some p \<Rightarrow> ctx\<lparr>objects_heap := (objects_heap ctx)(cur :=
                              (objects_heap ctx cur)\<lparr>getParent := Some p\<rparr>)\<rparr>)"
  define ctx2 where "ctx2 = ctx1\<lparr>objectIdx := objectIdx ctx1 + 1\<rparr>"
  have idx: "objectIdx ctx2 = objectIdx ctx + 1"
    by (simp add: ctx2_def ctx1_def split: option.splits)
  have tid: "getTypeId (objects_heap ctx2 child) = getTypeId (objects_heap ctx child)"
    by (simp add: ctx2_def ctx1_def split: option.splits)
  have "visitImpl fh fn (Some cur) child pending (b # ip) ctx2 =
          (Some (SceneObjectTypeNotFoundException (objectIdx ctx + 1)
                   (getTypeId (objects_heap ctx child))), ctx2)"
    using a by (simp add: visitProperties_missing_type idx tid)
  then show ?thesis
    unfolding childrenLoop.simps Let_def list.case ctx1_def [symmetric] ctx2_def [symmetric]
    by simp
qed

lemma controllersLoop_missing_name:
  assumes "getOpCode s = String"
    and "getOpCode b = BeginObject \<or> getOpCode b = BeginNamedObject"
    and "fn (str s) = None"
  shows "controllersLoop fn idx (Suc n) controllers (s # b # ip) =
           Inl (SceneObjectTypeNotFoundException idx (str s))"
  using assms by auto

lemmas fixtures = instr_def container_def stringInstr_def trivialInstr_def emptyValue_def
  emptyComplexType_def primitiveType_def placeholder_def catalog_def heapOf_def
  heapOfTypes_def registryWithGeom_def

section \<open>Claims\<close>

text \<open>
  C1.  The Stage 2 gate at work on one registered placeholder.  With \<open>NamedContainer(0)\<close>
  after the properties' \<open>EndObject\<close> the decode throws "Expected Container/NamedContainer";
  with a \<open>Trivial\<close> or a \<open>String\<close> instruction in that place nothing is thrown and the
  decode completes.
\<close>

theorem stage2_gate_evaluated:
  "fst (load catalog catalog [0]
       [instr BeginObject, instr EndObject, instr NamedContainer, container 0]
       (heapOf ''ZGEOM'' ''ZGEOM'')) =
     Some (SceneObjectVisitorException 0
            ''Invalid object definition (Expected Container/NamedContainer)'')
   \<and> fst (load catalog catalog [0]
       [instr BeginObject, instr EndObject, trivialInstr 0, container 0]
       (heapOf ''ZGEOM'' ''ZGEOM'')) = None
   \<and> fst (load catalog catalog [0]
       [instr BeginObject, instr EndObject, stringInstr ''ZGEOM'', container 0]
       (heapOf ''ZGEOM'' ''ZGEOM'')) = None"
  by (simp add: load_def slice_def visitProperties_def visitControllers_def fixtures)

text \<open>
  C2.  A root with one leaf child, both registered, on the stream the grammar prescribes
  (the child's object followed by its trailing \<open>EndObject\<close>): the child decodes, and the
  root then throws "Expected EndObject" with object index 1, because its own cursor still
  stands on the child's \<open>BeginObject\<close>.
\<close>

theorem child_cursor_not_shared_evaluated:
  "fst (load catalog catalog [0, 1]
       [instr BeginObject, instr EndObject, container 0, container 1,
        instr BeginObject, instr EndObject, container 0, container 0, instr EndObject]
       (heapOf ''ZGEOM'' ''ZGEOM'')) =
     Some (SceneObjectVisitorException 1 ''Invalid children definition (Expected EndObject)'')"
  by (simp add: load_def slice_def visitProperties_def visitControllers_def fixtures)

text \<open>
  C3.  One registered object with two controllers whose descriptors tolerate trailing
  instructions; the first has two surplus \<open>Trivial\<close> instructions before its \<open>EndObject\<close>.
  The decode completes, so the cursor did land after that \<open>EndObject\<close>, but the list retained
  with the first controller has five instructions: the two surplus ones, the \<open>EndObject\<close>,
  and the \<open>String\<close> and \<open>BeginObject\<close> of the second controller.
\<close>

theorem unexposed_tail_evaluated:
  "fst (load catalog catalog [0]
       [instr BeginObject, instr EndObject, container 2,
        stringInstr ''ZEVENT'', instr BeginObject, trivialInstr 7, trivialInstr 8,
        instr EndObject,
        stringInstr ''ZGEOM'', instr BeginObject, instr EndObject,
        container 0]
       (heapOf ''ZGEOM'' ''ZGEOM'')) = None
   \<and> map_option getInstructions (getControllers (snd (load catalog catalog [0]
       [instr BeginObject, instr EndObject, container 2,
        stringInstr ''ZEVENT'', instr BeginObject, trivialInstr 7, trivialInstr 8,
        instr EndObject,
        stringInstr ''ZGEOM'', instr BeginObject, instr EndObject,
        container 0]
       (heapOf ''ZGEOM'' ''ZGEOM'')) 0) ''ZEVENT'') =
     Some [trivialInstr 7, trivialInstr 8, instr EndObject, stringInstr ''ZGEOM'',
           instr BeginObject]"
  by (simp add: load_def slice_def visitProperties_def visitControllers_def
        extractUnexposed_def numeral_2_eq_2 fixtures)

text \<open>
  C4.  A root with one leaf child, both registered and both without a parent before the
  decode: the child is visited as a child of the root, the decode ends in an exception, and
  the parent back-reference of the child (and of the root) is still unset.
\<close>

theorem leaf_child_parent_evaluated:
  "fst (load catalog catalog [0, 1]
       [instr BeginObject, instr EndObject, container 0, container 1,
        instr BeginObject, instr EndObject, container 0, container 0, instr EndObject]
       (heapOf ''ZGEOM'' ''ZGEOM'')) \<noteq> None
   \<and> getParent (snd (load catalog catalog [0, 1]
       [instr BeginObject, instr EndObject, container 0, container 1,
        instr BeginObject, instr EndObject, container 0, container 0, instr EndObject]
       (heapOf ''ZGEOM'' ''ZGEOM'')) 1) = None
   \<and> getParent (snd (load catalog catalog [0, 1]
       [instr BeginObject, instr EndObject, container 0, container 1,
        instr BeginObject, instr EndObject, container 0, container 0, instr EndObject]
       (heapOf ''ZGEOM'' ''ZGEOM'')) 0) = None"
  by (simp add: load_def slice_def visitProperties_def visitControllers_def fixtures)

text \<open>
  C5.  A single placeholder with a registered type id and the stream \<open>BeginObject\<close>,
  properties that the type verifies and maps, \<open>EndObject\<close>, \<open>Container(0)\<close>,
  \<open>Container(0)\<close>: \<open>load\<close> raises nothing and changes exactly that one object, whose
  controllers are empty, whose properties are the mapped value and whose child list is
  still empty.
\<close>

theorem load_single_object:
  assumes "getOpCode b = BeginObject"
    and "fh (getTypeId (h a)) = Some t"
    and "fst (verify t (props @ [e, c1, c2]))"
    and "mapInstructions t (props @ [e, c1, c2]) = (Some v, [e, c1, c2])"
    and "getOpCode e = EndObject"
    and "getOpCode c1 = Container" and "trivial_i32 c1 = 0"
    and "getOpCode c2 = Container" and "trivial_i32 c2 = 0"
    and "getChildren (h a) = []"
  shows "load fh fn [a] (b # props @ [e, c1, c2]) h =
           (None, h(a := (h a)\<lparr>getControllers := Map.empty, getProperties := v\<rparr>))
         \<and> getChildren (snd (load fh fn [a] (b # props @ [e, c1, c2]) h) a) = []"
proof -
  have s1: "visitProperties fh 0 (getTypeId (h a)) (b # props @ [e, c1, c2]) = Inr (v, [c1, c2])"
    using assms by (simp add: visitProperties_def)
  have s2: "visitControllers fn 0 [c1, c2] = Inr (Map.empty, [c2])"
    using assms by (simp add: visitControllers_def)
  have "load fh fn [a] (b # props @ [e, c1, c2]) h =
           (None, h(a := (h a)\<lparr>getControllers := Map.empty, getProperties := v\<rparr>))"
    using assms(8,9) by (simp add: load_def slice_def s1 s2)
  then show ?thesis using assms(10) by simp
qed

theorem load_single_object_witness:
  "catalog (getTypeId (heapOf ''Int32'' ''Int32'' 0)) = Some primitiveType
   \<and> mapInstructions primitiveType
        [trivialInstr 5, instr EndObject, container 0, container 0] =
       (Some \<lparr>payload = Scalar 0, getInstructions = []\<rparr>,
        [instr EndObject, container 0, container 0])
   \<and> load catalog catalog [0]
        [instr BeginObject, trivialInstr 5, instr EndObject, container 0, container 0]
        (heapOf ''Int32'' ''Int32'') =
       (None, (heapOf ''Int32'' ''Int32'')(0 := (heapOf ''Int32'' ''Int32'' 0)
          \<lparr>getControllers := Map.empty,
           getProperties := \<lparr>payload = Scalar 0, getInstructions = []\<rparr>\<rparr>))
   \<and> getChildren (snd (load catalog catalog [0]
        [instr BeginObject, trivialInstr 5, instr EndObject, container 0, container 0]
        (heapOf ''Int32'' ''Int32'')) 0) = []"
  using load_single_object [where b = "instr BeginObject" and fh = catalog and fn = catalog
      and h = "heapOf ''Int32'' ''Int32''" and a = 0 and t = primitiveType
      and props = "[trivialInstr 5]" and e = "instr EndObject" and ?c1.0 = "container 0"
      and ?c2.0 = "container 0" and v = "\<lparr>payload = Scalar 0, getInstructions = []\<rparr>"]
  by (simp add: fixtures)

text \<open>
  C6.  Three placeholders, the last with an unregistered type id, in two shapes.  As siblings (a root, a
  registered first child, an unregistered second child, each child followed by its trailing
  \<open>EndObject\<close>), the decode never reaches the unregistered object: after the first child it
  throws "Expected EndObject" with object index 1.  As a chain (root, registered child,
  unregistered grandchild), the unregistered object is reached and the decode throws
  \<open>SceneObjectTypeNotFoundException\<close> with index 2 and the missing type id.
\<close>

theorem missing_type_after_sibling_evaluated:
  "fst (load catalog catalog [0, 1, 2]
       [instr BeginObject, instr EndObject, container 0, container 2,
        instr BeginObject, instr EndObject, container 0, container 0, instr EndObject,
        instr BeginObject, instr EndObject, container 0, container 0, instr EndObject]
       (heapOfTypes [''ZGEOM'', ''ZGEOM'', ''ZUNKNOWN''])) =
     Some (SceneObjectVisitorException 1 ''Invalid children definition (Expected EndObject)'')
   \<and> fst (load catalog catalog [0, 1, 2]
       [instr BeginObject, instr EndObject, container 0, container 1,
        instr BeginObject, instr EndObject, container 0, container 1,
        instr BeginObject, instr EndObject, container 0, container 0, instr EndObject,
        instr EndObject]
       (heapOfTypes [''ZGEOM'', ''ZGEOM'', ''ZUNKNOWN''])) =
     Some (SceneObjectTypeNotFoundException 2 ''ZUNKNOWN'')"
  by (simp add: load_def slice_def visitProperties_def visitControllers_def numeral_2_eq_2
        fixtures)

text \<open>
  C7.  One registered object whose single controller names a registered descriptor that is
  not complex.  The descriptor is not mapped and the decode is aborted, but by
  \<open>fmt::format_error\<close>: the message of the intended \<open>SceneObjectVisitorException\<close> is
  formatted with no argument for its field, so that exception is never constructed.
\<close>

theorem non_complex_controller_evaluated:
  "load catalog catalog [0]
     [instr BeginObject, instr EndObject, container 1,
      stringInstr ''Int32'', instr BeginObject, trivialInstr 7, instr EndObject,
      container 0]
     (heapOf ''ZGEOM'' ''ZGEOM'') =
     (Some FmtFormatError, heapOf ''ZGEOM'' ''ZGEOM'')"
  by (simp add: load_def slice_def visitProperties_def visitControllers_def fixtures)

text \<open>
  C8.  \<open>isInheritedOfGeom\<close> is false exactly when the parent index is the sentinel
  \<open>0xFFFFFFEE\<close> and true for every other index, and a freshly constructed entity has the
  sentinel as its parent index (so it is not inherited).
\<close>

theorem isInheritedOfGeom_sentinel:
  "isInheritedOfGeom entity = (m_parentGeomIndex entity \<noteq> 0xFFFFFFEE)
   \<and> m_parentGeomIndex (GMSGeomEntity_init unk34) = 0xFFFFFFEE
   \<and> \<not> isInheritedOfGeom (GMSGeomEntity_init unk34)"
  by (simp add: isInheritedOfGeom_def GMSGeomEntity_init_def kInvalidParent_def)

text \<open>
  C9.  \<open>registerType\<close> with a name already in the name index returns null and leaves the
  registry as it was: the descriptor registered first stays under the name, the new one is
  not stored, and neither index changes.  With a fresh name the descriptor is appended to the
  owned descriptors, entered in the name index, and a pointer to it is returned.
\<close>

theorem registerType_first_wins:
  "(\<forall>existing. m_typesByName r (getName t) = Some existing \<longrightarrow>
       fst (registerType (Some t) r) = None \<and> snd (registerType (Some t) r) = r
       \<and> m_typesByName (snd (registerType (Some t) r)) (getName t) = Some existing)
   \<and> (m_typesByName r (getName t) = None \<longrightarrow>
       fst (registerType (Some t) r) = Some t
       \<and> m_types (snd (registerType (Some t) r)) = m_types r @ [t]
       \<and> m_typesByName (snd (registerType (Some t) r)) = (m_typesByName r)(getName t \<mapsto> t)
       \<and> m_typesByHash (snd (registerType (Some t) r)) = m_typesByHash r)"
  by (simp add: registerType_def)

theorem registerType_first_wins_witness:
  "m_typesByName registryWithGeom (getName (primitiveType\<lparr>getName := ''ZGEOM''\<rparr>))
     = Some (emptyComplexType ''ZGEOM'')
   \<and> fst (registerType (Some (primitiveType\<lparr>getName := ''ZGEOM''\<rparr>)) registryWithGeom) = None
   \<and> snd (registerType (Some (primitiveType\<lparr>getName := ''ZGEOM''\<rparr>)) registryWithGeom)
       = registryWithGeom
   \<and> m_typesByName registryWithGeom (getName primitiveType) = None
   \<and> fst (registerType (Some primitiveType) registryWithGeom) = Some primitiveType
   \<and> m_types (snd (registerType (Some primitiveType) registryWithGeom))
       = [emptyComplexType ''ZGEOM'', primitiveType]"
proof -
  have dup: "m_typesByName registryWithGeom (getName (primitiveType\<lparr>getName := ''ZGEOM''\<rparr>))
     = Some (emptyComplexType ''ZGEOM'')"
    by (simp add: registryWithGeom_def)
  have fresh: "m_typesByName registryWithGeom (getName primitiveType) = None"
    by (simp add: registryWithGeom_def primitiveType_def)
  have tys: "m_types registryWithGeom = [emptyComplexType ''ZGEOM'']"
    by (simp add: registryWithGeom_def)
  show ?thesis
    using registerType_first_wins [of registryWithGeom "primitiveType\<lparr>getName := ''ZGEOM''\<rparr>"]
      registerType_first_wins [of registryWithGeom primitiveType] dup fresh tys
    by simp
qed

text \<open>
  C10.  \<open>load\<close> called with an empty placeholder window or an empty instruction window
  returns at once: no error is raised and the heap of scene objects is the one it was given.
\<close>

theorem load_empty_window:
  "load fh fn [] instructions h = (None, h) \<and> load fh fn objects [] h = (None, h)"
  by (simp add: load_def)

end
